theory Spec2Isabelle
  imports Main
begin

section \<open>Data model\<close>

text \<open>
  The six deployment scripts talk to the Cloudflare v4 API through the \<open>requests\<close>
  library. A script is modelled as a function of the process environment and of the
  remote system; it returns the exit status of the process, the figures of its final
  summary line and the log of every HTTP exchange it made, in the order it made them.
  Console output is not modelled.
\<close>

text \<open>Request payloads are the Python dictionaries handed to \<open>json=\<close>.\<close>

datatype json =
    JNull
  | JBool bool
  | JNum int
  | JStr string
  | JList "json list"
  | JObj "(string \<times> json) list"

datatype verb = GET | POST | PUT | PATCH

record request =
  req_verb :: verb
  req_url :: string
  req_headers :: "(string \<times> string) list"
  req_json :: "json option"

text \<open>
  What the scripts observe of a call followed by \<open>raise_for_status()\<close> is the branch
  of the surrounding \<open>try\<close> that is taken: \<open>HTTPError\<close> with the status code of the
  response, any other \<open>RequestException\<close> (connection, DNS, time-out), or a normal
  return. \<open>raise_for_status()\<close> raises on the status codes 400 to 599. After a normal
  return every function calls \<open>response.json()\<close>, still inside the \<open>try\<close>: on a body
  that is empty or not JSON this raises the library's \<open>JSONDecodeError\<close>, which is a
  \<open>RequestException\<close> and is caught by the second \<open>except\<close> clause. So an answer
  without an error status is either \<open>Ok\<close> with its decoded body or \<open>NotJSON\<close>. A
  decoded body is taken to be the envelope the API documents; the only part of it the
  scripts read is the \<open>result\<close> member of the ruleset listing and of the ruleset
  creation.
\<close>

datatype 'a response = HTTPError nat | RequestException | NotJSON | Ok 'a

text \<open>The remote system took the request: no exception up to \<open>raise_for_status()\<close>.\<close>

fun is_Ok :: "'a response \<Rightarrow> bool" where
  "is_Ok (Ok b) = True"
| "is_Ok NotJSON = True"
| "is_Ok (HTTPError c) = False"
| "is_Ok RequestException = False"

text \<open>The whole \<open>try\<close> block ran: the request was taken and its body decoded.\<close>

fun has_json :: "'a response \<Rightarrow> bool" where
  "has_json (Ok b) = True"
| "has_json NotJSON = False"
| "has_json (HTTPError c) = False"
| "has_json RequestException = False"

text \<open>A ruleset as it appears in a response; each member may be absent.\<close>

record ruleset =
  rs_id :: "string option"
  rs_name :: "string option"
  rs_kind :: "string option"
  rs_phase :: "string option"

text \<open>
  An exchange is a request that was sent and whether the remote system took it, that is,
  whether the answer came back without a transport error and without an error status.
\<close>

record exchange =
  sent :: request
  accepted :: bool

text \<open>
  The remote system answers a request knowing every exchange of the run so far, so it
  may be stateful. \<open>on_get\<close> answers \<open>requests.get\<close> with the \<open>result\<close> list of the
  body (\<open>None\<close> when the member is absent), \<open>on_post\<close> answers \<open>requests.post\<close> with
  the \<open>result\<close> object of the body, and the bodies of \<open>requests.put\<close> and
  \<open>requests.patch\<close> are only printed.
\<close>

record remote =
  on_get :: "exchange list \<Rightarrow> request \<Rightarrow> (ruleset list option) response"
  on_post :: "exchange list \<Rightarrow> request \<Rightarrow> (ruleset option) response"
  on_put :: "exchange list \<Rightarrow> request \<Rightarrow> unit response"
  on_patch :: "exchange list \<Rightarrow> request \<Rightarrow> unit response"

type_synonym environ = "string \<Rightarrow> string option"

text \<open>
  The outcome of a script: the exit status, the pair printed by the summary line
  (succeeded, attempted) when that line is reached, and the log of exchanges.
\<close>

record run =
  exit_code :: int
  tally :: "(nat \<times> nat) option"
  trace :: "exchange list"

section \<open>The library calls\<close>

definition requests_get ::
  "remote \<Rightarrow> string \<Rightarrow> (string \<times> string) list \<Rightarrow> exchange list
     \<Rightarrow> (ruleset list option) response \<times> exchange list" where
  "requests_get rem u h tr =
     (let q = \<lparr>req_verb = GET, req_url = u, req_headers = h, req_json = None\<rparr>;
          r = on_get rem tr q
      in (r, tr @ [\<lparr>sent = q, accepted = is_Ok r\<rparr>]))"

definition requests_post ::
  "remote \<Rightarrow> string \<Rightarrow> (string \<times> string) list \<Rightarrow> json \<Rightarrow> exchange list
     \<Rightarrow> (ruleset option) response \<times> exchange list" where
  "requests_post rem u h p tr =
     (let q = \<lparr>req_verb = POST, req_url = u, req_headers = h, req_json = Some p\<rparr>;
          r = on_post rem tr q
      in (r, tr @ [\<lparr>sent = q, accepted = is_Ok r\<rparr>]))"

definition requests_put ::
  "remote \<Rightarrow> string \<Rightarrow> (string \<times> string) list \<Rightarrow> json \<Rightarrow> exchange list
     \<Rightarrow> unit response \<times> exchange list" where
  "requests_put rem u h p tr =
     (let q = \<lparr>req_verb = PUT, req_url = u, req_headers = h, req_json = Some p\<rparr>;
          r = on_put rem tr q
      in (r, tr @ [\<lparr>sent = q, accepted = is_Ok r\<rparr>]))"

definition requests_patch ::
  "remote \<Rightarrow> string \<Rightarrow> (string \<times> string) list \<Rightarrow> json \<Rightarrow> exchange list
     \<Rightarrow> unit response \<times> exchange list" where
  "requests_patch rem u h p tr =
     (let q = \<lparr>req_verb = PATCH, req_url = u, req_headers = h, req_json = Some p\<rparr>;
          r = on_patch rem tr q
      in (r, tr @ [\<lparr>sent = q, accepted = is_Ok r\<rparr>]))"

section \<open>Shared pieces of every script\<close>

text \<open>Python truthiness of an optional string: \<open>None\<close> and \<open>""\<close> are false.\<close>

fun truthy :: "string option \<Rightarrow> bool" where
  "truthy None = False"
| "truthy (Some s) = (s \<noteq> [])"

definition api_base :: string where
  "api_base = ''https://api.cloudflare.com/client/v4/zones/''"

definition make_headers :: "string \<Rightarrow> (string \<times> string) list" where
  "make_headers api_token =
     [(''Authorization'', ''Bearer '' @ api_token),
      (''Content-Type'', ''application/json'')]"

definition aborted :: "exchange list \<Rightarrow> run" where
  "aborted tr = \<lparr>exit_code = 1, tally = None, trace = tr\<rparr>"

text \<open>The end of a counting script: the summary line, then \<open>sys.exit(1)\<close> on a shortfall.\<close>

definition finish :: "nat \<Rightarrow> nat \<Rightarrow> exchange list \<Rightarrow> run" where
  "finish success_count n_total tr =
     \<lparr>exit_code = (if success_count < n_total then 1 else 0),
      tally = Some (success_count, n_total),
      trace = tr\<rparr>"

section \<open>deploy\_cache\_rules.py\<close>

definition rulesets_url :: "string \<Rightarrow> string" where
  "rulesets_url zone_id = api_base @ zone_id @ ''/rulesets''"

definition rules_url :: "string \<Rightarrow> string \<Rightarrow> string" where
  "rules_url zone_id ruleset_id = api_base @ zone_id @ ''/rulesets/'' @ ruleset_id @ ''/rules''"

text \<open>\<open>response.json().get('result', [])\<close> and \<open>create_response.json().get('result', {}).get('id')\<close>.\<close>

definition result_list :: "ruleset list option \<Rightarrow> ruleset list" where
  "result_list body = (case body of None \<Rightarrow> [] | Some l \<Rightarrow> l)"

definition result_id :: "ruleset option \<Rightarrow> string option" where
  "result_id body = (case body of None \<Rightarrow> None | Some n \<Rightarrow> rs_id n)"

text \<open>The \<open>for\<close> loop over the listed rulesets: the first match is returned.\<close>

fun scan_rulesets :: "string \<Rightarrow> ruleset list \<Rightarrow> ruleset option" where
  "scan_rulesets phase [] = None"
| "scan_rulesets phase (r # rs) =
     (if rs_kind r = Some ''zone'' \<and> rs_phase r = Some phase then Some r
      else scan_rulesets phase rs)"

definition cache_phase :: string where
  "cache_phase = ''http_request_cache_settings''"

definition cache_create_payload :: json where
  "cache_create_payload = JObj
     [(''name'', JStr ''Default Cache Settings Ruleset''),
      (''description'', JStr ''Default ruleset for custom cache settings, created via API''),
      (''kind'', JStr ''zone''),
      (''phase'', JStr cache_phase)]"

definition find_or_create_cache_ruleset ::
  "remote \<Rightarrow> string \<Rightarrow> (string \<times> string) list \<Rightarrow> exchange list
     \<Rightarrow> string option \<times> exchange list" where
  "find_or_create_cache_ruleset rem zone_id h tr =
     (case requests_get rem (rulesets_url zone_id) h tr of
        (HTTPError c, tr1) \<Rightarrow> (None, tr1)
      | (RequestException, tr1) \<Rightarrow> (None, tr1)
      | (NotJSON, tr1) \<Rightarrow> (None, tr1)
      | (Ok body, tr1) \<Rightarrow>
          (let rulesets = result_list body in
           case scan_rulesets cache_phase rulesets of
             Some r \<Rightarrow> (rs_id r, tr1)
           | None \<Rightarrow>
               (case requests_post rem (rulesets_url zone_id) h cache_create_payload tr1 of
                  (HTTPError c, tr2) \<Rightarrow> (None, tr2)
                | (RequestException, tr2) \<Rightarrow> (None, tr2)
                | (NotJSON, tr2) \<Rightarrow> (None, tr2)
                | (Ok created, tr2) \<Rightarrow>
                    (let new_ruleset_id = result_id created in
                     if truthy new_ruleset_id then (new_ruleset_id, tr2) else (None, tr2)))))"

text \<open>
  Every writing function prints its success banner after \<open>raise_for_status()\<close> and then
  prints \<open>response.json()\<close>. When the body does not decode, the second \<open>except\<close> clause
  catches the error and the function returns \<open>False\<close>, although the remote system took
  the request.
\<close>

definition add_rule_to_ruleset ::
  "remote \<Rightarrow> string \<Rightarrow> string \<Rightarrow> (string \<times> string) list \<Rightarrow> json \<Rightarrow> exchange list
     \<Rightarrow> bool \<times> exchange list" where
  "add_rule_to_ruleset rem zone_id ruleset_id h rule_payload tr =
     (case requests_post rem (rules_url zone_id ruleset_id) h rule_payload tr of
        (Ok b, tr1) \<Rightarrow> (True, tr1)
      | (NotJSON, tr1) \<Rightarrow> (False, tr1)
      | (HTTPError c, tr1) \<Rightarrow> (False, tr1)
      | (RequestException, tr1) \<Rightarrow> (False, tr1))"

text \<open>The loop of \<open>main\<close> over \<open>rules_to_add\<close>, with its counter.\<close>

fun add_rules ::
  "remote \<Rightarrow> string \<Rightarrow> string \<Rightarrow> (string \<times> string) list \<Rightarrow> json list \<Rightarrow> nat \<Rightarrow> exchange list
     \<Rightarrow> nat \<times> exchange list" where
  "add_rules rem zone_id ruleset_id h [] success_count tr = (success_count, tr)"
| "add_rules rem zone_id ruleset_id h (rule # rest) success_count tr =
     (case add_rule_to_ruleset rem zone_id ruleset_id h rule tr of
        (True, tr1) \<Rightarrow> add_rules rem zone_id ruleset_id h rest (success_count + 1) tr1
      | (False, tr1) \<Rightarrow> add_rules rem zone_id ruleset_id h rest success_count tr1)"

definition bypass_admin_rule :: json where
  \<open>bypass_admin_rule = JObj
     [(''description'', JStr ''Bypass Cache for Admin Areas''),
      (''action'', JStr ''set_cache_settings''),
      (''action_parameters'', JObj [(''cache'', JBool False)]),
      (''expression'', JStr
         ''(http.request.uri.path contains "/wp-admin") or (http.request.uri.path contains "/admin")'')]\<close>

definition bypass_login_rule :: json where
  \<open>bypass_login_rule = JObj
     [(''description'', JStr ''Bypass Cache for User Login and Portal Pages''),
      (''action'', JStr ''set_cache_settings''),
      (''action_parameters'', JObj [(''cache'', JBool False)]),
      (''expression'', JStr
         (''(http.request.uri.path contains "/login") or '' @
          ''(http.request.uri.path contains "/signin") or '' @
          ''(http.request.uri.path contains "/dashboard") or '' @
          ''(http.request.uri.path contains "/portal") or '' @
          ''(http.request.uri.path contains "/user") or '' @
          ''(http.request.uri.path contains "/account") or '' @
          ''(http.request.uri.path contains "/clientarea")''))]\<close>

definition cache_rules_to_add :: "json list" where
  "cache_rules_to_add = [bypass_admin_rule, bypass_login_rule]"

text \<open>
  \<open>main\<close> of the cache script, with the literal list \<open>rules_to_add\<close> taken as an
  argument; \<open>cache_main\<close> is the script itself.
\<close>

definition cache_main_with :: "json list \<Rightarrow> environ \<Rightarrow> remote \<Rightarrow> run" where
  "cache_main_with rules_to_add env rem =
     (let api_token = env ''CLOUDFLARE_API_TOKEN''; zone_id = env ''ZONE_ID'' in
      if \<not> truthy api_token \<or> \<not> truthy zone_id then aborted []
      else
        (let h = make_headers (the api_token);
             (ruleset_id, tr) = find_or_create_cache_ruleset rem (the zone_id) h []
         in if truthy ruleset_id then
              (let (success_count, tr1) =
                     add_rules rem (the zone_id) (the ruleset_id) h rules_to_add 0 tr
               in finish success_count (length rules_to_add) tr1)
            else aborted tr))"

definition cache_main :: "environ \<Rightarrow> remote \<Rightarrow> run" where
  "cache_main = cache_main_with cache_rules_to_add"

section \<open>deploy\_securityrules.py\<close>

text \<open>
  The firewall script only looks its ruleset up. Its \<open>add_rule_to_ruleset\<close> is the one of
  the cache script, word for word but for the docstring.
\<close>

definition firewall_phase :: string where
  "firewall_phase = ''http_request_firewall_custom''"

definition find_firewall_ruleset_id ::
  "remote \<Rightarrow> string \<Rightarrow> (string \<times> string) list \<Rightarrow> exchange list
     \<Rightarrow> string option \<times> exchange list" where
  "find_firewall_ruleset_id rem zone_id h tr =
     (case requests_get rem (rulesets_url zone_id) h tr of
        (HTTPError c, tr1) \<Rightarrow> (None, tr1)
      | (RequestException, tr1) \<Rightarrow> (None, tr1)
      | (NotJSON, tr1) \<Rightarrow> (None, tr1)
      | (Ok body, tr1) \<Rightarrow>
          (let rulesets = result_list body in
           case scan_rulesets firewall_phase rulesets of
             Some r \<Rightarrow> (rs_id r, tr1)
           | None \<Rightarrow> (None, tr1)))"

definition geo_block_rule :: json where
  \<open>geo_block_rule = JObj
     [(''description'', JStr ''Block High-Risk Countries''),
      (''action'', JStr ''block''),
      (''expression'', JStr
         (''(ip.src.country in { "AF" "DZ" "BY" "BO" "BQ" "BW" "TD" "CN" "DJ" '' @
          ''"EC" "ER" "GH" "HN" "KP" "KG" "NA" "RU" "SO" "SZ" "SY" "UA" "YE" '' @
          ''"XX" "TN" })''))]\<close>

definition scanner_block_rule :: json where
  \<open>scanner_block_rule = JObj
     [(''description'', JStr ''Block High-Risk Scanners''),
      (''action'', JStr ''block''),
      (''expression'', JStr
         ''(http.user_agent contains "nikto") or (http.user_agent contains "sqlmap")'')]\<close>

definition firewall_rules_to_add :: "json list" where
  "firewall_rules_to_add = [geo_block_rule, scanner_block_rule]"

definition firewall_main_with :: "json list \<Rightarrow> environ \<Rightarrow> remote \<Rightarrow> run" where
  "firewall_main_with rules_to_add env rem =
     (let api_token = env ''CLOUDFLARE_API_TOKEN''; zone_id = env ''ZONE_ID'' in
      if \<not> truthy api_token \<or> \<not> truthy zone_id then aborted []
      else
        (let h = make_headers (the api_token);
             (ruleset_id, tr) = find_firewall_ruleset_id rem (the zone_id) h []
         in if truthy ruleset_id then
              (let (success_count, tr1) =
                     add_rules rem (the zone_id) (the ruleset_id) h rules_to_add 0 tr
               in finish success_count (length rules_to_add) tr1)
            else aborted tr))"

definition firewall_main :: "environ \<Rightarrow> remote \<Rightarrow> run" where
  "firewall_main = firewall_main_with firewall_rules_to_add"

section \<open>deploy\_rate\_limiting.py\<close>

definition rate_limit_url :: "string \<Rightarrow> string" where
  "rate_limit_url zone_id = api_base @ zone_id @ ''/rulesets/phases/http_ratelimit/entrypoint''"

definition rate_limit_payload :: json where
  \<open>rate_limit_payload = JObj
     [(''rules'', JList
        [JObj
           [(''action'', JStr ''block''),
            (''description'', JStr ''Default Rate Limiting''),
            (''enabled'', JBool True),
            (''expression'', JStr
               (''(http.request.uri.path wildcard r"/api/*") or '' @
                ''(http.request.uri.path contains "/login") or '' @
                ''(http.request.uri.path contains "/dashboard") or '' @
                ''(http.request.uri.path contains "/wp-login.php") or '' @
                ''(http.request.uri.path eq "/administrator") or '' @
                ''(http.request.uri.path contains "/index.php/admin/") or '' @
                ''(http.request.uri.path contains "/wp-admin/") or '' @
                ''(http.request.uri.path wildcard r"/rest/*") or '' @
                ''(http.request.uri.path contains "/checkout") or '' @
                ''(http.request.uri.path contains "/xmlrpc.php")'')),
            (''ratelimit'', JObj
               [(''characteristics'', JList [JStr ''ip.src'', JStr ''cf.colo.id'']),
                (''mitigation_timeout'', JNum 10),
                (''period'', JNum 10),
                (''requests_per_period'', JNum 20)])]])]\<close>

definition deploy_rate_limit_ruleset ::
  "remote \<Rightarrow> string \<Rightarrow> (string \<times> string) list \<Rightarrow> exchange list \<Rightarrow> bool \<times> exchange list" where
  "deploy_rate_limit_ruleset rem zone_id h tr =
     (case requests_put rem (rate_limit_url zone_id) h rate_limit_payload tr of
        (Ok b, tr1) \<Rightarrow> (True, tr1)
      | (NotJSON, tr1) \<Rightarrow> (False, tr1)
      | (HTTPError c, tr1) \<Rightarrow> (False, tr1)
      | (RequestException, tr1) \<Rightarrow> (False, tr1))"

text \<open>The rate-limit script prints no summary line: it falls off the end or exits with 1.\<close>

definition rate_limit_main :: "environ \<Rightarrow> remote \<Rightarrow> run" where
  "rate_limit_main env rem =
     (let api_token = env ''CLOUDFLARE_API_TOKEN''; zone_id = env ''ZONE_ID'' in
      if \<not> truthy api_token \<or> \<not> truthy zone_id then aborted []
      else
        (let h = make_headers (the api_token);
             (deployed, tr) = deploy_rate_limit_ruleset rem (the zone_id) h []
         in if \<not> deployed then aborted tr
            else \<lparr>exit_code = 0, tally = None, trace = tr\<rparr>))"

section \<open>The setting scripts\<close>

text \<open>An entry of a \<open>settings_to_apply\<close> list.\<close>

record setting =
  api_name :: string
  friendly_name :: string
  payload :: json

definition setting_url :: "string \<Rightarrow> string \<Rightarrow> string" where
  "setting_url zone_id setting_name = api_base @ zone_id @ ''/settings/'' @ setting_name"

text \<open>
  \<open>update_zone_setting\<close> is defined in three scripts (speed, TLS/DNSSEC, security). The
  three copies send the same request and return alike; they differ in what they print.
\<close>

definition update_zone_setting ::
  "remote \<Rightarrow> string \<Rightarrow> (string \<times> string) list \<Rightarrow> string \<Rightarrow> string \<Rightarrow> json \<Rightarrow> exchange list
     \<Rightarrow> bool \<times> exchange list" where
  "update_zone_setting rem zone_id h setting_name friendly p tr =
     (case requests_patch rem (setting_url zone_id setting_name) h p tr of
        (Ok b, tr1) \<Rightarrow> (True, tr1)
      | (NotJSON, tr1) \<Rightarrow> (False, tr1)
      | (HTTPError c, tr1) \<Rightarrow> (False, tr1)
      | (RequestException, tr1) \<Rightarrow> (False, tr1))"

text \<open>The loop over a settings list, with its counter.\<close>

fun update_settings ::
  "remote \<Rightarrow> string \<Rightarrow> (string \<times> string) list \<Rightarrow> setting list \<Rightarrow> nat \<Rightarrow> exchange list
     \<Rightarrow> nat \<times> exchange list" where
  "update_settings rem zone_id h [] success_count tr = (success_count, tr)"
| "update_settings rem zone_id h (s # rest) success_count tr =
     (case update_zone_setting rem zone_id h (api_name s) (friendly_name s) (payload s) tr of
        (True, tr1) \<Rightarrow> update_settings rem zone_id h rest (success_count + 1) tr1
      | (False, tr1) \<Rightarrow> update_settings rem zone_id h rest success_count tr1)"

definition on_value :: json where
  "on_value = JObj [(''value'', JStr ''on'')]"

subsection \<open>deploy\_speed.py\<close>


definition speed_main_with :: "setting list \<Rightarrow> environ \<Rightarrow> remote \<Rightarrow> run" where
  "speed_main_with settings_to_apply env rem =
     (let api_token = env ''CLOUDFLARE_API_TOKEN''; zone_id = env ''ZONE_ID'' in
      if \<not> truthy api_token \<or> \<not> truthy zone_id then aborted []
      else
        (let h = make_headers (the api_token);
             (success_count, tr) = update_settings rem (the zone_id) h settings_to_apply 0 []
         in finish success_count (length settings_to_apply) tr))"


subsection \<open>deploy\_dns\_sec\_settings.py\<close>

definition dnssec_url :: "string \<Rightarrow> string" where
  "dnssec_url zone_id = api_base @ zone_id @ ''/dnssec''"

definition dnssec_payload :: json where
  "dnssec_payload = JObj [(''status'', JStr ''active'')]"

definition update_dnssec_setting ::
  "remote \<Rightarrow> string \<Rightarrow> (string \<times> string) list \<Rightarrow> exchange list \<Rightarrow> bool \<times> exchange list" where
  "update_dnssec_setting rem zone_id h tr =
     (case requests_patch rem (dnssec_url zone_id) h dnssec_payload tr of
        (Ok b, tr1) \<Rightarrow> (True, tr1)
      | (NotJSON, tr1) \<Rightarrow> (False, tr1)
      | (HTTPError c, tr1) \<Rightarrow> (False, tr1)
      | (RequestException, tr1) \<Rightarrow> (False, tr1))"

definition ssl_settings_to_apply :: "setting list" where
  "ssl_settings_to_apply =
     [\<lparr>api_name = ''ssl'', friendly_name = ''SSL/TLS Mode'',
         payload = JObj [(''value'', JStr ''strict'')]\<rparr>,
      \<lparr>api_name = ''always_use_https'', friendly_name = ''Always Use HTTPS'', payload = on_value\<rparr>,
      \<lparr>api_name = ''min_tls_version'', friendly_name = ''Minimum TLS Version'',
         payload = JObj [(''value'', JStr ''1.2'')]\<rparr>,
      \<lparr>api_name = ''tls_1_3'', friendly_name = ''TLS 1.3'', payload = on_value\<rparr>,
      \<lparr>api_name = ''automatic_https_rewrites'', friendly_name = ''Automatic HTTPS Rewrites'',
         payload = on_value\<rparr>]"

definition dns_sec_main_with :: "setting list \<Rightarrow> environ \<Rightarrow> remote \<Rightarrow> run" where
  "dns_sec_main_with settings_to_apply env rem =
     (let api_token = env ''CLOUDFLARE_API_TOKEN''; zone_id = env ''ZONE_ID'' in
      if \<not> truthy api_token \<or> \<not> truthy zone_id then aborted []
      else
        (let h = make_headers (the api_token);
             total_settings = length settings_to_apply + 1;
             (dnssec_ok, tr) = update_dnssec_setting rem (the zone_id) h [];
             (success_count, tr1) =
                update_settings rem (the zone_id) h settings_to_apply (if dnssec_ok then 1 else 0) tr
         in finish success_count total_settings tr1))"

definition dns_sec_main :: "environ \<Rightarrow> remote \<Rightarrow> run" where
  "dns_sec_main = dns_sec_main_with ssl_settings_to_apply"

subsection \<open>deploy\_sec\_settings.py\<close>

definition page_shield_url :: "string \<Rightarrow> string" where
  "page_shield_url zone_id = api_base @ zone_id @ ''/page_shield''"

definition page_shield_payload :: json where
  "page_shield_payload = JObj
     [(''enabled'', JBool True),
      (''use_cloudflare_reporting_endpoint'', JBool True),
      (''use_connection_url_path'', JBool True)]"

definition update_page_shield_setting ::
  "remote \<Rightarrow> string \<Rightarrow> (string \<times> string) list \<Rightarrow> exchange list \<Rightarrow> bool \<times> exchange list" where
  "update_page_shield_setting rem zone_id h tr =
     (case requests_put rem (page_shield_url zone_id) h page_shield_payload tr of
        (Ok b, tr1) \<Rightarrow> (True, tr1)
      | (NotJSON, tr1) \<Rightarrow> (False, tr1)
      | (HTTPError c, tr1) \<Rightarrow> (False, tr1)
      | (RequestException, tr1) \<Rightarrow> (False, tr1))"

definition bot_management_url :: "string \<Rightarrow> string" where
  "bot_management_url zone_id = api_base @ zone_id @ ''/bot_management''"

definition bot_fight_payload :: json where
  "bot_fight_payload = JObj [(''fight_mode'', JBool True)]"

definition update_bot_fight_mode ::
  "remote \<Rightarrow> string \<Rightarrow> (string \<times> string) list \<Rightarrow> exchange list \<Rightarrow> bool \<times> exchange list" where
  "update_bot_fight_mode rem zone_id h tr =
     (case requests_put rem (bot_management_url zone_id) h bot_fight_payload tr of
        (Ok b, tr1) \<Rightarrow> (True, tr1)
      | (NotJSON, tr1) \<Rightarrow> (False, tr1)
      | (HTTPError c, tr1) \<Rightarrow> (False, tr1)
      | (RequestException, tr1) \<Rightarrow> (False, tr1))"

definition standard_settings_to_apply :: "setting list" where
  "standard_settings_to_apply =
     [\<lparr>api_name = ''hcaptcha_pass'', friendly_name = ''AI Labyrinth (Turnstile)'',
         payload = on_value\<rparr>]"

definition sec_main_with :: "setting list \<Rightarrow> environ \<Rightarrow> remote \<Rightarrow> run" where
  "sec_main_with settings_to_apply env rem =
     (let api_token = env ''CLOUDFLARE_API_TOKEN''; zone_id = env ''ZONE_ID'' in
      if \<not> truthy api_token \<or> \<not> truthy zone_id then aborted []
      else
        (let h = make_headers (the api_token);
             total_settings = length settings_to_apply + 2;
             (shield_ok, tr) = update_page_shield_setting rem (the zone_id) h [];
             (bot_ok, tr1) = update_bot_fight_mode rem (the zone_id) h tr;
             (success_count, tr2) =
                update_settings rem (the zone_id) h settings_to_apply
                  ((if shield_ok then 1 else 0) + (if bot_ok then 1 else 0)) tr1
         in finish success_count total_settings tr2))"

definition sec_main :: "environ \<Rightarrow> remote \<Rightarrow> run" where
  "sec_main = sec_main_with standard_settings_to_apply"

section \<open>Observing a run\<close>

text \<open>The requests the scripts build, named after the call that sends them.\<close>

definition list_request :: "string \<Rightarrow> (string \<times> string) list \<Rightarrow> request" where
  "list_request zone_id h =
     \<lparr>req_verb = GET, req_url = rulesets_url zone_id, req_headers = h, req_json = None\<rparr>"

definition create_request :: "string \<Rightarrow> (string \<times> string) list \<Rightarrow> request" where
  "create_request zone_id h =
     \<lparr>req_verb = POST, req_url = rulesets_url zone_id, req_headers = h,
      req_json = Some cache_create_payload\<rparr>"

definition add_rule_request :: "string \<Rightarrow> string \<Rightarrow> (string \<times> string) list \<Rightarrow> json \<Rightarrow> request" where
  "add_rule_request zone_id ruleset_id h rule =
     \<lparr>req_verb = POST, req_url = rules_url zone_id ruleset_id, req_headers = h,
      req_json = Some rule\<rparr>"

definition setting_request :: "string \<Rightarrow> (string \<times> string) list \<Rightarrow> setting \<Rightarrow> request" where
  "setting_request zone_id h s =
     \<lparr>req_verb = PATCH, req_url = setting_url zone_id (api_name s), req_headers = h,
      req_json = Some (payload s)\<rparr>"

definition rate_limit_request :: "string \<Rightarrow> (string \<times> string) list \<Rightarrow> request" where
  "rate_limit_request zone_id h =
     \<lparr>req_verb = PUT, req_url = rate_limit_url zone_id, req_headers = h,
      req_json = Some rate_limit_payload\<rparr>"

definition dnssec_request :: "string \<Rightarrow> (string \<times> string) list \<Rightarrow> request" where
  "dnssec_request zone_id h =
     \<lparr>req_verb = PATCH, req_url = dnssec_url zone_id, req_headers = h,
      req_json = Some dnssec_payload\<rparr>"

definition page_shield_request :: "string \<Rightarrow> (string \<times> string) list \<Rightarrow> request" where
  "page_shield_request zone_id h =
     \<lparr>req_verb = PUT, req_url = page_shield_url zone_id, req_headers = h,
      req_json = Some page_shield_payload\<rparr>"

definition bot_fight_request :: "string \<Rightarrow> (string \<times> string) list \<Rightarrow> request" where
  "bot_fight_request zone_id h =
     \<lparr>req_verb = PUT, req_url = bot_management_url zone_id, req_headers = h,
      req_json = Some bot_fight_payload\<rparr>"

text \<open>The test of the locators' loops.\<close>

definition matches :: "string \<Rightarrow> ruleset \<Rightarrow> bool" where
  "matches phase r \<longleftrightarrow> rs_kind r = Some ''zone'' \<and> rs_phase r = Some phase"

text \<open>
  Requests are told apart by verb and URL: the listing is the only \<open>GET\<close>, a ruleset
  creation is a \<open>POST\<close> to the ruleset collection of the zone, and every other request is
  a mutation (rule append, rule-list replacement or setting update).
\<close>

definition is_creation :: "string \<Rightarrow> request \<Rightarrow> bool" where
  "is_creation zone_id q \<longleftrightarrow> req_verb q = POST \<and> req_url q = rulesets_url zone_id"

definition is_mutation :: "string \<Rightarrow> request \<Rightarrow> bool" where
  "is_mutation zone_id q \<longleftrightarrow> req_verb q \<noteq> GET \<and> \<not> is_creation zone_id q"

definition mutations :: "string \<Rightarrow> exchange list \<Rightarrow> exchange list" where
  "mutations zone_id tr = filter (\<lambda>e. is_mutation zone_id (sent e)) tr"


text \<open>Both variables are set and non-empty.\<close>

definition credentials :: "environ \<Rightarrow> string \<Rightarrow> string \<Rightarrow> bool" where
  "credentials env api_token zone_id \<longleftrightarrow>
     env ''CLOUDFLARE_API_TOKEN'' = Some api_token \<and> api_token \<noteq> [] \<and>
     env ''ZONE_ID'' = Some zone_id \<and> zone_id \<noteq> []"

definition creations :: "string \<Rightarrow> exchange list \<Rightarrow> exchange list" where
  "creations zone_id tr = filter (\<lambda>e. is_creation zone_id (sent e)) tr"

definition posts :: "exchange list \<Rightarrow> exchange list" where
  "posts tr = filter (\<lambda>e. req_verb (sent e) = POST) tr"

text \<open>
  Modelled from the spec: the effect of an accepted rule write on the remote system, which
  is not code of this repository. The spec lists the endpoints \<open>append-rule(container)\<close>
  and \<open>replace-rules(container, list)\<close> and says of the latter that it is a full replace
  of the entrypoint's rule list (last writer wins), not an append. The rule list of a
  container is looked up by the URL the write is sent to: an accepted \<open>PUT\<close> whose payload
  has a \<open>rules\<close> list puts that list in place of the old one, an accepted \<open>POST\<close> adds its
  payload at the end, and nothing else changes a rule list.
\<close>

type_synonym rule_lists = "string \<Rightarrow> json list"

fun rules_member :: "json \<Rightarrow> json list option" where
  "rules_member (JObj ms) = (case map_of ms ''rules'' of Some (JList rs) \<Rightarrow> Some rs | _ \<Rightarrow> None)"
| "rules_member _ = None"

definition remote_effect :: "rule_lists \<Rightarrow> exchange \<Rightarrow> rule_lists" where
  "remote_effect st e =
     (if accepted e then
        (case (req_verb (sent e), req_json (sent e)) of
           (PUT, Some p) \<Rightarrow>
             (case rules_member p of Some rs \<Rightarrow> st(req_url (sent e) := rs) | None \<Rightarrow> st)
         | (POST, Some p) \<Rightarrow> st(req_url (sent e) := st (req_url (sent e)) @ [p])
         | _ \<Rightarrow> st)
      else st)"

definition remote_after :: "rule_lists \<Rightarrow> exchange list \<Rightarrow> rule_lists" where
  "remote_after st tr = foldl remote_effect st tr"

section \<open>Concrete environments and remote systems\<close>

definition env_ok :: environ where
  "env_ok k =
     (if k = ''CLOUDFLARE_API_TOKEN'' then Some ''tok''
      else if k = ''ZONE_ID'' then Some ''zone1'' else None)"

definition env_no_token :: environ where
  "env_no_token k = (if k = ''ZONE_ID'' then Some ''zone1'' else None)"

text \<open>
  A remote system that answers every listing with \<open>listing\<close> and every ruleset creation
  with \<open>creation\<close>. It rejects a write when the number of exchanges made before it is in
  \<open>failing\<close>, and takes a write with an empty body in answer (status 204) when that number
  is in \<open>bodyless\<close>.
\<close>

definition demo_remote ::
  "(ruleset list option) response \<Rightarrow> (ruleset option) response \<Rightarrow> nat list \<Rightarrow> nat list
     \<Rightarrow> remote" where
  "demo_remote listing creation failing bodyless =
     \<lparr>on_get = (\<lambda>tr q. listing),
      on_post = (\<lambda>tr q. if req_json q = Some cache_create_payload then creation
                         else if length tr \<in> set failing then HTTPError 400
                         else if length tr \<in> set bodyless then NotJSON else Ok None),
      on_put = (\<lambda>tr q. if length tr \<in> set failing then HTTPError 403
                        else if length tr \<in> set bodyless then NotJSON else Ok ()),
      on_patch = (\<lambda>tr q. if length tr \<in> set failing then HTTPError 404
                          else if length tr \<in> set bodyless then NotJSON else Ok ())\<rparr>"

definition ruleset_abc :: ruleset where
  "ruleset_abc = \<lparr>rs_id = Some ''abc'', rs_name = Some ''Default Cache Settings Ruleset'',
                  rs_kind = Some ''zone'', rs_phase = Some cache_phase\<rparr>"

definition ruleset_fw :: ruleset where
  "ruleset_fw = \<lparr>rs_id = Some ''fw1'', rs_name = Some ''default'',
                 rs_kind = Some ''zone'', rs_phase = Some firewall_phase\<rparr>"

definition ruleset_managed :: ruleset where
  "ruleset_managed = \<lparr>rs_id = Some ''m0'', rs_name = Some ''Managed'',
                      rs_kind = Some ''managed'', rs_phase = Some ''http_request_firewall_managed''\<rparr>"

definition ruleset_no_id :: ruleset where
  "ruleset_no_id = \<lparr>rs_id = None, rs_name = Some ''Default Cache Settings Ruleset'',
                    rs_kind = Some ''zone'', rs_phase = Some cache_phase\<rparr>"

text \<open>A zone with no ruleset at all, where a creation would be answered with identifier \<open>abc\<close>.\<close>

definition remote_empty_zone :: remote where
  "remote_empty_zone = demo_remote (Ok (Some [])) (Ok (Some ruleset_abc)) [] []"

text \<open>The same zone when the creation response carries no identifier.\<close>

definition remote_no_id :: remote where
  "remote_no_id = demo_remote (Ok (Some [])) (Ok (Some ruleset_no_id)) [] []"

text \<open>A zone that lists a managed ruleset, then the cache and the firewall rulesets.\<close>

definition remote_provisioned :: remote where
  "remote_provisioned =
     demo_remote (Ok (Some [ruleset_managed, ruleset_abc, ruleset_fw])) (Ok None) [] []"

text \<open>The same zone when the second exchange of the run is rejected.\<close>

definition remote_second_rejected :: remote where
  "remote_second_rejected =
     demo_remote (Ok (Some [ruleset_managed, ruleset_abc, ruleset_fw])) (Ok None) [1] []"

text \<open>A remote system whose listing fails with status 500.\<close>

definition remote_500 :: remote where
  "remote_500 = demo_remote (HTTPError 500) (Ok (Some ruleset_abc)) [] []"

text \<open>An empty zone whose ruleset creation is refused with status 403.\<close>

definition remote_creation_refused :: remote where
  "remote_creation_refused = demo_remote (Ok (Some [])) (HTTPError 403) [] []"



text \<open>Rule lists of a remote system that holds one old rule in every container.\<close>

definition stale_rules :: rule_lists where
  "stale_rules u = [JObj [(''description'', JStr ''an older rule'')]]"

section \<open>Auxiliary facts\<close>

subsection \<open>Single calls and loops\<close>

lemma add_rule_to_ruleset_eq:
  "add_rule_to_ruleset rem z rid h rule tr =
     (has_json (on_post rem tr (add_rule_request z rid h rule)),
      tr @ [\<lparr>sent = add_rule_request z rid h rule,
             accepted = is_Ok (on_post rem tr (add_rule_request z rid h rule))\<rparr>])"
  by (simp add: add_rule_to_ruleset_def requests_post_def add_rule_request_def Let_def
           split: response.splits)

lemma add_rules_sends:
  "map sent (snd (add_rules rem z rid h rules c tr)) =
     map sent tr @ map (add_rule_request z rid h) rules"
proof (induction rules arbitrary: c tr)
  case Nil
  show ?case by simp
next
  case (Cons rule rest)
  show ?case
    by (cases "has_json (on_post rem tr (add_rule_request z rid h rule))")
       (simp_all add: add_rule_to_ruleset_eq Cons.IH)
qed

lemma rules_url_not_rulesets_url: "rules_url z rid \<noteq> rulesets_url z"
  by (simp add: rules_url_def rulesets_url_def)

lemma update_zone_setting_eq:
  "update_zone_setting rem z h (api_name s) (friendly_name s) (payload s) tr =
     (has_json (on_patch rem tr (setting_request z h s)),
      tr @ [\<lparr>sent = setting_request z h s,
             accepted = is_Ok (on_patch rem tr (setting_request z h s))\<rparr>])"
  by (simp add: update_zone_setting_def requests_patch_def setting_request_def Let_def
           split: response.splits)

lemma update_settings_sends:
  "map sent (snd (update_settings rem z h ss c tr)) =
     map sent tr @ map (setting_request z h) ss"
proof (induction ss arbitrary: c tr)
  case Nil
  show ?case by simp
next
  case (Cons s rest)
  show ?case
    by (cases "has_json (on_patch rem tr (setting_request z h s))")
       (simp_all add: update_zone_setting_eq Cons.IH)
qed

lemma deploy_rate_limit_ruleset_eq:
  "deploy_rate_limit_ruleset rem z h tr =
     (has_json (on_put rem tr (rate_limit_request z h)),
      tr @ [\<lparr>sent = rate_limit_request z h,
             accepted = is_Ok (on_put rem tr (rate_limit_request z h))\<rparr>])"
  by (simp add: deploy_rate_limit_ruleset_def requests_put_def rate_limit_request_def Let_def
           split: response.splits)

lemma update_dnssec_setting_eq:
  "update_dnssec_setting rem z h tr =
     (has_json (on_patch rem tr (dnssec_request z h)),
      tr @ [\<lparr>sent = dnssec_request z h,
             accepted = is_Ok (on_patch rem tr (dnssec_request z h))\<rparr>])"
  by (simp add: update_dnssec_setting_def requests_patch_def dnssec_request_def Let_def
           split: response.splits)

lemma update_page_shield_setting_eq:
  "update_page_shield_setting rem z h tr =
     (has_json (on_put rem tr (page_shield_request z h)),
      tr @ [\<lparr>sent = page_shield_request z h,
             accepted = is_Ok (on_put rem tr (page_shield_request z h))\<rparr>])"
  by (simp add: update_page_shield_setting_def requests_put_def page_shield_request_def Let_def
           split: response.splits)

lemma update_bot_fight_mode_eq:
  "update_bot_fight_mode rem z h tr =
     (has_json (on_put rem tr (bot_fight_request z h)),
      tr @ [\<lparr>sent = bot_fight_request z h,
             accepted = is_Ok (on_put rem tr (bot_fight_request z h))\<rparr>])"
  by (simp add: update_bot_fight_mode_def requests_put_def bot_fight_request_def Let_def
           split: response.splits)

subsection \<open>The scan\<close>

lemma scan_rulesets_first:
  "\<forall>r \<in> set pre. \<not> matches phase r \<Longrightarrow> matches phase m
     \<Longrightarrow> scan_rulesets phase (pre @ m # post) = Some m"
  by (induction pre) (auto simp add: matches_def)

lemma scan_rulesets_none:
  "\<forall>r \<in> set rs. \<not> matches phase r \<Longrightarrow> scan_rulesets phase rs = None"
  by (induction rs) (simp_all add: matches_def)

subsection \<open>The locators\<close>

lemma requests_get_eq:
  "requests_get rem (rulesets_url z) h tr =
     (on_get rem tr (list_request z h),
      tr @ [\<lparr>sent = list_request z h, accepted = is_Ok (on_get rem tr (list_request z h))\<rparr>])"
  by (simp add: requests_get_def list_request_def Let_def)

lemma requests_post_create_eq:
  "requests_post rem (rulesets_url z) h cache_create_payload tr =
     (on_post rem tr (create_request z h),
      tr @ [\<lparr>sent = create_request z h, accepted = is_Ok (on_post rem tr (create_request z h))\<rparr>])"
  by (simp add: requests_post_def create_request_def Let_def)

lemma cache_locator_lookup_failed:
  "\<not> is_Ok (on_get rem tr (list_request z h)) \<Longrightarrow>
   find_or_create_cache_ruleset rem z h tr =
     (None, tr @ [\<lparr>sent = list_request z h, accepted = False\<rparr>])"
  by (cases "on_get rem tr (list_request z h)")
     (simp_all add: find_or_create_cache_ruleset_def requests_get_eq)

lemma cache_locator_found:
  "on_get rem tr (list_request z h) = Ok body \<Longrightarrow>
   scan_rulesets cache_phase (result_list body) = Some r \<Longrightarrow>
   find_or_create_cache_ruleset rem z h tr =
     (rs_id r, tr @ [\<lparr>sent = list_request z h, accepted = True\<rparr>])"
  by (simp add: find_or_create_cache_ruleset_def requests_get_eq)

lemma cache_locator_created:
  "on_get rem tr (list_request z h) = Ok body \<Longrightarrow>
   scan_rulesets cache_phase (result_list body) = None \<Longrightarrow>
   on_post rem (tr @ [\<lparr>sent = list_request z h, accepted = True\<rparr>]) (create_request z h) = cr \<Longrightarrow>
   find_or_create_cache_ruleset rem z h tr =
     ((case cr of Ok created \<Rightarrow> if truthy (result_id created) then result_id created else None
               | NotJSON \<Rightarrow> None | HTTPError c \<Rightarrow> None | RequestException \<Rightarrow> None),
      tr @ [\<lparr>sent = list_request z h, accepted = True\<rparr>,
            \<lparr>sent = create_request z h, accepted = is_Ok cr\<rparr>])"
  by (cases cr)
     (auto simp add: find_or_create_cache_ruleset_def requests_get_eq requests_post_create_eq)

lemma firewall_locator_eq:
  "find_firewall_ruleset_id rem z h tr =
     ((case on_get rem tr (list_request z h) of
         Ok body \<Rightarrow> (case scan_rulesets firewall_phase (result_list body) of
                       Some r \<Rightarrow> rs_id r | None \<Rightarrow> None)
       | NotJSON \<Rightarrow> None | HTTPError c \<Rightarrow> None | RequestException \<Rightarrow> None),
      tr @ [\<lparr>sent = list_request z h, accepted = is_Ok (on_get rem tr (list_request z h))\<rparr>])"
  by (cases "on_get rem tr (list_request z h)")
     (simp_all add: find_firewall_ruleset_id_def requests_get_eq split: option.splits)

lemma not_mutation_list: "\<not> is_mutation z (list_request z h)"
  by (simp add: is_mutation_def list_request_def)

lemma not_mutation_create: "\<not> is_mutation z (create_request z h)"
  by (simp add: is_mutation_def is_creation_def create_request_def)

subsection \<open>The runs\<close>

lemma cache_main_sends:
  assumes cred: "credentials env tok z"
      and loc: "find_or_create_cache_ruleset rem z (make_headers tok) [] = (Some rid, tr0)"
      and rid: "rid \<noteq> []"
  shows "map sent (trace (cache_main_with rules env rem)) =
           map sent tr0 @ map (add_rule_request z rid (make_headers tok)) rules"
proof -
  obtain c tr1 where run: "add_rules rem z rid (make_headers tok) rules 0 tr0 = (c, tr1)"
    by (cases "add_rules rem z rid (make_headers tok) rules 0 tr0")
  then have "trace (cache_main_with rules env rem) = tr1"
    using cred loc rid by (simp add: cache_main_with_def credentials_def finish_def Let_def)
  moreover have "tr1 = snd (add_rules rem z rid (make_headers tok) rules 0 tr0)"
    by (simp add: run)
  ultimately show ?thesis by (simp only: add_rules_sends)
qed

lemma firewall_main_sends:
  assumes cred: "credentials env tok z"
      and loc: "find_firewall_ruleset_id rem z (make_headers tok) [] = (Some rid, tr0)"
      and rid: "rid \<noteq> []"
  shows "map sent (trace (firewall_main_with rules env rem)) =
           map sent tr0 @ map (add_rule_request z rid (make_headers tok)) rules"
proof -
  obtain c tr1 where run: "add_rules rem z rid (make_headers tok) rules 0 tr0 = (c, tr1)"
    by (cases "add_rules rem z rid (make_headers tok) rules 0 tr0")
  then have "trace (firewall_main_with rules env rem) = tr1"
    using cred loc rid by (simp add: firewall_main_with_def credentials_def finish_def Let_def)
  moreover have "tr1 = snd (add_rules rem z rid (make_headers tok) rules 0 tr0)"
    by (simp add: run)
  ultimately show ?thesis by (simp only: add_rules_sends)
qed

lemma speed_main_sends:
  assumes cred: "credentials env tok z"
  shows "map sent (trace (speed_main_with ss env rem)) =
           map (setting_request z (make_headers tok)) ss"
proof -
  obtain c tr1 where run: "update_settings rem z (make_headers tok) ss 0 [] = (c, tr1)"
    by (cases "update_settings rem z (make_headers tok) ss 0 []")
  then have "trace (speed_main_with ss env rem) = tr1"
    using cred by (simp add: speed_main_with_def credentials_def finish_def Let_def)
  moreover have "tr1 = snd (update_settings rem z (make_headers tok) ss 0 [])"
    by (simp add: run)
  ultimately show ?thesis by (simp add: update_settings_sends)
qed

lemma dns_sec_main_sends:
  assumes cred: "credentials env tok z"
  shows "map sent (trace (dns_sec_main_with ss env rem)) =
           dnssec_request z (make_headers tok) # map (setting_request z (make_headers tok)) ss"
proof -
  let ?h = "make_headers tok"
  let ?r = "on_patch rem [] (dnssec_request z ?h)"
  let ?e = "\<lparr>sent = dnssec_request z ?h, accepted = is_Ok ?r\<rparr>"
  let ?c = "if has_json ?r then 1 else (0::nat)"
  obtain c tr1 where run: "update_settings rem z ?h ss ?c [?e] = (c, tr1)"
    by (cases "update_settings rem z ?h ss ?c [?e]")
  then have "trace (dns_sec_main_with ss env rem) = tr1"
    using cred
    by (simp add: dns_sec_main_with_def credentials_def finish_def Let_def update_dnssec_setting_eq)
  moreover have "tr1 = snd (update_settings rem z ?h ss ?c [?e])"
    by (simp add: run)
  ultimately show ?thesis by (simp add: update_settings_sends)
qed

lemma sec_main_sends:
  assumes cred: "credentials env tok z"
  shows "map sent (trace (sec_main_with ss env rem)) =
           page_shield_request z (make_headers tok) # bot_fight_request z (make_headers tok)
             # map (setting_request z (make_headers tok)) ss"
proof -
  let ?h = "make_headers tok"
  let ?r1 = "on_put rem [] (page_shield_request z ?h)"
  let ?e1 = "\<lparr>sent = page_shield_request z ?h, accepted = is_Ok ?r1\<rparr>"
  let ?r2 = "on_put rem [?e1] (bot_fight_request z ?h)"
  let ?e2 = "\<lparr>sent = bot_fight_request z ?h, accepted = is_Ok ?r2\<rparr>"
  let ?c = "(if has_json ?r1 then 1 else 0) + (if has_json ?r2 then 1 else (0::nat))"
  obtain c tr1 where run: "update_settings rem z ?h ss ?c [?e1, ?e2] = (c, tr1)"
    by (cases "update_settings rem z ?h ss ?c [?e1, ?e2]")
  then have "trace (sec_main_with ss env rem) = tr1"
    using cred
    by (simp add: sec_main_with_def credentials_def finish_def Let_def
          update_page_shield_setting_eq update_bot_fight_mode_eq)
  moreover have "tr1 = snd (update_settings rem z ?h ss ?c [?e1, ?e2])"
    by (simp add: run)
  ultimately show ?thesis by (simp add: update_settings_sends)
qed

lemma rate_limit_main_eq:
  assumes cred: "credentials env tok z"
  shows "rate_limit_main env rem =
           \<lparr>exit_code = (if has_json (on_put rem [] (rate_limit_request z (make_headers tok))) then 0 else 1),
            tally = None,
            trace = [\<lparr>sent = rate_limit_request z (make_headers tok),
                      accepted = is_Ok (on_put rem [] (rate_limit_request z (make_headers tok)))\<rparr>]\<rparr>"
  using cred
  by (simp add: rate_limit_main_def credentials_def deploy_rate_limit_ruleset_eq aborted_def
        Let_def)

subsection \<open>The concrete runs\<close>

lemma credentials_env_ok: "credentials env_ok ''tok'' ''zone1''"
  by (simp add: credentials_def env_ok_def)

lemma remote_provisioned_listing:
  "on_get remote_provisioned tr q = Ok (Some [ruleset_managed, ruleset_abc, ruleset_fw])"
  by (simp add: remote_provisioned_def demo_remote_def)

lemma remote_empty_zone_listing: "on_get remote_empty_zone tr q = Ok (Some [])"
  by (simp add: remote_empty_zone_def demo_remote_def)

lemma remote_empty_zone_creation:
  "on_post remote_empty_zone tr (create_request z h) = Ok (Some ruleset_abc)"
  by (simp add: remote_empty_zone_def demo_remote_def create_request_def)

lemma remote_no_id_answers:
  "on_get remote_no_id tr q = Ok (Some [])"
  "on_post remote_no_id tr (create_request z h) = Ok (Some ruleset_no_id)"
  by (simp_all add: remote_no_id_def demo_remote_def create_request_def)

lemma remote_creation_refused_answers:
  "on_get remote_creation_refused tr q = Ok (Some [])"
  "on_post remote_creation_refused tr (create_request z h) = HTTPError 403"
  by (simp_all add: remote_creation_refused_def demo_remote_def create_request_def)

lemma provisioned_put_taken: "is_Ok (on_put remote_provisioned tr q)"
  by (simp add: remote_provisioned_def demo_remote_def)

lemma provisioned_cache_locator:
  "find_or_create_cache_ruleset
     (demo_remote (Ok (Some [ruleset_managed, ruleset_abc, ruleset_fw])) c f b) z h [] =
       (Some ''abc'', [\<lparr>sent = list_request z h, accepted = True\<rparr>])"
proof -
  have "scan_rulesets cache_phase (result_list (Some [ruleset_managed, ruleset_abc, ruleset_fw]))
          = Some ruleset_abc"
    by (simp add: result_list_def ruleset_managed_def ruleset_abc_def)
  then show ?thesis
    using cache_locator_found
            [of "demo_remote (Ok (Some [ruleset_managed, ruleset_abc, ruleset_fw])) c f b" "[]" z h
                "Some [ruleset_managed, ruleset_abc, ruleset_fw]" ruleset_abc]
    by (simp add: demo_remote_def ruleset_abc_def)
qed

lemma provisioned_firewall_locator:
  "find_firewall_ruleset_id
     (demo_remote (Ok (Some [ruleset_managed, ruleset_abc, ruleset_fw])) c f b) z h [] =
       (Some ''fw1'', [\<lparr>sent = list_request z h, accepted = True\<rparr>])"
  by (simp add: firewall_locator_eq demo_remote_def result_list_def ruleset_managed_def
        ruleset_abc_def ruleset_fw_def cache_phase_def firewall_phase_def)


section \<open>Properties of the scripts\<close>

subsection \<open>Missing credentials\<close>

text \<open>
  C6. When \<open>CLOUDFLARE_API_TOKEN\<close> or \<open>ZONE_ID\<close> is unset or empty, each of the six
  scripts makes no network call (the log of exchanges is empty) and exits with status 1.
\<close>

theorem missing_credentials_abort:
  assumes "\<not> truthy (env ''CLOUDFLARE_API_TOKEN'') \<or> \<not> truthy (env ''ZONE_ID'')"
  shows "cache_main_with rules env rem = \<lparr>exit_code = 1, tally = None, trace = []\<rparr> \<and>
         firewall_main_with rules env rem = \<lparr>exit_code = 1, tally = None, trace = []\<rparr> \<and>
         rate_limit_main env rem = \<lparr>exit_code = 1, tally = None, trace = []\<rparr> \<and>
         speed_main_with settings env rem = \<lparr>exit_code = 1, tally = None, trace = []\<rparr> \<and>
         dns_sec_main_with settings env rem = \<lparr>exit_code = 1, tally = None, trace = []\<rparr> \<and>
         sec_main_with settings env rem = \<lparr>exit_code = 1, tally = None, trace = []\<rparr>"
  using assms
  by (auto simp add: cache_main_with_def firewall_main_with_def rate_limit_main_def
        speed_main_with_def dns_sec_main_with_def sec_main_with_def aborted_def)

theorem missing_credentials_abort_witness:
  "\<not> truthy (env_no_token ''CLOUDFLARE_API_TOKEN'') \<and>
   cache_main env_no_token remote_provisioned = \<lparr>exit_code = 1, tally = None, trace = []\<rparr> \<and>
   rate_limit_main env_no_token remote_provisioned = \<lparr>exit_code = 1, tally = None, trace = []\<rparr> \<and>
   dns_sec_main env_no_token remote_provisioned = \<lparr>exit_code = 1, tally = None, trace = []\<rparr>"
proof -
  have h: "\<not> truthy (env_no_token ''CLOUDFLARE_API_TOKEN'')"
    by (simp add: env_no_token_def)
  then have "\<not> truthy (env_no_token ''CLOUDFLARE_API_TOKEN'') \<or> \<not> truthy (env_no_token ''ZONE_ID'')"
    by simp
  from missing_credentials_abort [OF this, of cache_rules_to_add remote_provisioned ssl_settings_to_apply]
  show ?thesis using h by (simp add: cache_main_def dns_sec_main_def)
qed

subsection \<open>Write verbs\<close>

text \<open>
  C9. The page-shield update and the bot-fight-mode update are sent with \<open>PUT\<close> to their
  dedicated endpoints; the DNSSEC update (dedicated endpoint) and the generic per-setting
  update are sent with \<open>PATCH\<close>. Each update is a single request.
\<close>

theorem special_endpoint_verbs:
  "map sent (snd (update_page_shield_setting rem z h [])) = [page_shield_request z h] \<and>
   req_verb (page_shield_request z h) = PUT \<and>
   req_url (page_shield_request z h) = page_shield_url z \<and>
   map sent (snd (update_bot_fight_mode rem z h [])) = [bot_fight_request z h] \<and>
   req_verb (bot_fight_request z h) = PUT \<and>
   req_url (bot_fight_request z h) = bot_management_url z \<and>
   map sent (snd (update_dnssec_setting rem z h [])) = [dnssec_request z h] \<and>
   req_verb (dnssec_request z h) = PATCH \<and>
   req_url (dnssec_request z h) = dnssec_url z \<and>
   map sent (snd (update_zone_setting rem z h (api_name s) (friendly_name s) (payload s) []))
     = [setting_request z h s] \<and>
   req_verb (setting_request z h s) = PATCH \<and>
   req_url (setting_request z h s) = setting_url z (api_name s)"
  by (simp add: update_page_shield_setting_eq update_bot_fight_mode_eq update_dnssec_setting_eq
        update_zone_setting_eq page_shield_request_def bot_fight_request_def dnssec_request_def
        setting_request_def)

subsection \<open>The rate-limit script\<close>

text \<open>
  C7. With credentials present, the rate-limit script sends exactly one request: a \<open>PUT\<close>
  to the entrypoint of the \<open>http_ratelimit\<close> phase of the zone, whose payload is the whole
  \<open>rules\<close> list, here one rule. When the remote system takes it, the rule list of the
  entrypoint is that list, whatever it held before. Without credentials the script sends
  nothing. In no run does it send a \<open>POST\<close>, the verb of every append-rule request.
\<close>

theorem rate_limit_full_replace: \<open>
  let entrypoint = ''https://api.cloudflare.com/client/v4/zones/'' @ z @
                     ''/rulesets/phases/http_ratelimit/entrypoint'';
      rules =
        [JObj
           [(''action'', JStr ''block''),
            (''description'', JStr ''Default Rate Limiting''),
            (''enabled'', JBool True),
            (''expression'', JStr
               (''(http.request.uri.path wildcard r"/api/*") or '' @
                ''(http.request.uri.path contains "/login") or '' @
                ''(http.request.uri.path contains "/dashboard") or '' @
                ''(http.request.uri.path contains "/wp-login.php") or '' @
                ''(http.request.uri.path eq "/administrator") or '' @
                ''(http.request.uri.path contains "/index.php/admin/") or '' @
                ''(http.request.uri.path contains "/wp-admin/") or '' @
                ''(http.request.uri.path wildcard r"/rest/*") or '' @
                ''(http.request.uri.path contains "/checkout") or '' @
                ''(http.request.uri.path contains "/xmlrpc.php")'')),
            (''ratelimit'', JObj
               [(''characteristics'', JList [JStr ''ip.src'', JStr ''cf.colo.id'']),
                (''mitigation_timeout'', JNum 10),
                (''period'', JNum 10),
                (''requests_per_period'', JNum 20)])]];
      put = \<lparr>req_verb = PUT, req_url = entrypoint,
             req_headers = [(''Authorization'', ''Bearer '' @ tok),
                            (''Content-Type'', ''application/json'')],
             req_json = Some (JObj [(''rules'', JList rules)])\<rparr>
  in (credentials env tok z \<longrightarrow>
        map sent (trace (rate_limit_main env rem)) = [put] \<and>
        (is_Ok (on_put rem [] put) \<longrightarrow>
           remote_after st (trace (rate_limit_main env rem)) entrypoint = rules)) \<and>
     (\<not> truthy (env ''CLOUDFLARE_API_TOKEN'') \<or> \<not> truthy (env ''ZONE_ID'') \<longrightarrow>
        trace (rate_limit_main env rem) = []) \<and>
     posts (trace (rate_limit_main env rem)) = []\<close>
proof -
  let ?entry = \<open>''https://api.cloudflare.com/client/v4/zones/'' @ z @
                     ''/rulesets/phases/http_ratelimit/entrypoint''\<close>
  let ?rules = \<open>
        [JObj
           [(''action'', JStr ''block''),
            (''description'', JStr ''Default Rate Limiting''),
            (''enabled'', JBool True),
            (''expression'', JStr
               (''(http.request.uri.path wildcard r"/api/*") or '' @
                ''(http.request.uri.path contains "/login") or '' @
                ''(http.request.uri.path contains "/dashboard") or '' @
                ''(http.request.uri.path contains "/wp-login.php") or '' @
                ''(http.request.uri.path eq "/administrator") or '' @
                ''(http.request.uri.path contains "/index.php/admin/") or '' @
                ''(http.request.uri.path contains "/wp-admin/") or '' @
                ''(http.request.uri.path wildcard r"/rest/*") or '' @
                ''(http.request.uri.path contains "/checkout") or '' @
                ''(http.request.uri.path contains "/xmlrpc.php")'')),
            (''ratelimit'', JObj
               [(''characteristics'', JList [JStr ''ip.src'', JStr ''cf.colo.id'']),
                (''mitigation_timeout'', JNum 10),
                (''period'', JNum 10),
                (''requests_per_period'', JNum 20)])]]\<close>
  let ?put = \<open>\<lparr>req_verb = PUT, req_url = ?entry,
             req_headers = [(''Authorization'', ''Bearer '' @ tok),
                            (''Content-Type'', ''application/json'')],
             req_json = Some (JObj [(''rules'', JList ?rules)])\<rparr>\<close>
  have lit: "rate_limit_request z (make_headers tok) = ?put"
    by (simp add: rate_limit_request_def rate_limit_url_def api_base_def make_headers_def
          rate_limit_payload_def)
  have sends: "map sent (trace (rate_limit_main env rem)) = [?put]"
    if cred: "credentials env tok z"
    by (simp only: rate_limit_main_eq [OF cred] lit run.simps list.map exchange.simps)
  have effect: "remote_after st (trace (rate_limit_main env rem)) ?entry = ?rules"
    if cred: "credentials env tok z" and taken: "is_Ok (on_put rem [] ?put)"
  proof -
    have "trace (rate_limit_main env rem) = [\<lparr>sent = ?put, accepted = True\<rparr>]"
      using taken by (simp only: rate_limit_main_eq [OF cred] lit run.simps)
    then show ?thesis
      by (simp add: remote_after_def remote_effect_def)
  qed
  have b: "\<not> truthy (env ''CLOUDFLARE_API_TOKEN'') \<or> \<not> truthy (env ''ZONE_ID'') \<Longrightarrow>
      trace (rate_limit_main env rem) = []"
    by (auto simp add: rate_limit_main_def aborted_def)
  have c: "posts (trace (rate_limit_main env rem)) = []"
  proof (cases "\<not> truthy (env ''CLOUDFLARE_API_TOKEN'') \<or> \<not> truthy (env ''ZONE_ID'')")
    case True
    with b show ?thesis by (simp add: posts_def)
  next
    case False
    then obtain t zz where "credentials env t zz"
      by (cases "env ''CLOUDFLARE_API_TOKEN''"; cases "env ''ZONE_ID''")
         (auto simp add: credentials_def)
    then show ?thesis
      by (simp add: rate_limit_main_eq posts_def rate_limit_request_def)
  qed
  show ?thesis
    unfolding Let_def using sends effect b c by blast
qed

theorem rate_limit_full_replace_witness:
  "credentials env_ok ''tok'' ''zone1'' \<and>
   is_Ok (on_put remote_provisioned [] (rate_limit_request ''zone1'' (make_headers ''tok''))) \<and>
   map sent (trace (rate_limit_main env_ok remote_provisioned)) =
     [rate_limit_request ''zone1'' (make_headers ''tok'')] \<and>
   stale_rules (rate_limit_url ''zone1'') = [JObj [(''description'', JStr ''an older rule'')]] \<and>
   length (remote_after stale_rules (trace (rate_limit_main env_ok remote_provisioned))
             (rate_limit_url ''zone1'')) = 1 \<and>
   rules_member rate_limit_payload =
     Some (remote_after stale_rules (trace (rate_limit_main env_ok remote_provisioned))
             (rate_limit_url ''zone1'')) \<and>
   \<not> truthy (env_no_token ''CLOUDFLARE_API_TOKEN'') \<and>
   trace (rate_limit_main env_no_token remote_provisioned) = [] \<and>
   posts (trace (rate_limit_main env_ok remote_provisioned)) = []"
proof -
  have h: "\<not> truthy (env_no_token ''CLOUDFLARE_API_TOKEN'')"
    by (simp add: env_no_token_def)
  from rate_limit_full_replace [of "''zone1''" "''tok''" env_ok remote_provisioned stale_rules]
       rate_limit_full_replace [of "''zone1''" "''tok''" env_no_token remote_provisioned stale_rules]
  show ?thesis
    using credentials_env_ok h
    by (simp add: Let_def provisioned_put_taken stale_rules_def rate_limit_payload_def
          rate_limit_request_def rate_limit_url_def api_base_def make_headers_def)
qed

subsection \<open>The locators\<close>

text \<open>
  C4. When the listing succeeds and some listed ruleset has kind \<open>zone\<close> and the target
  phase, each locator (cache and firewall) sends the listing request only, so no creation
  request, and returns the \<open>id\<close> member of the first such ruleset in the order of the
  listing: \<open>m\<close>, with no match among the rulesets \<open>pre\<close> listed before it.
\<close>

theorem locator_returns_first_match:
  assumes listed: "on_get rem tr (list_request z h) = Ok body"
      and split: "result_list body = pre @ m # post"
  shows "((\<forall>r \<in> set pre. \<not> matches cache_phase r) \<and> matches cache_phase m \<longrightarrow>
            find_or_create_cache_ruleset rem z h tr =
              (rs_id m, tr @ [\<lparr>sent = list_request z h, accepted = True\<rparr>])) \<and>
         ((\<forall>r \<in> set pre. \<not> matches firewall_phase r) \<and> matches firewall_phase m \<longrightarrow>
            find_firewall_ruleset_id rem z h tr =
              (rs_id m, tr @ [\<lparr>sent = list_request z h, accepted = True\<rparr>]))"
proof (intro conjI impI)
  assume "(\<forall>r \<in> set pre. \<not> matches cache_phase r) \<and> matches cache_phase m"
  then have "scan_rulesets cache_phase (result_list body) = Some m"
    by (simp add: split scan_rulesets_first)
  with listed show "find_or_create_cache_ruleset rem z h tr =
      (rs_id m, tr @ [\<lparr>sent = list_request z h, accepted = True\<rparr>])"
    by (rule cache_locator_found)
next
  assume "(\<forall>r \<in> set pre. \<not> matches firewall_phase r) \<and> matches firewall_phase m"
  then have "scan_rulesets firewall_phase (result_list body) = Some m"
    by (simp add: split scan_rulesets_first)
  with listed show "find_firewall_ruleset_id rem z h tr =
      (rs_id m, tr @ [\<lparr>sent = list_request z h, accepted = True\<rparr>])"
    by (simp add: firewall_locator_eq)
qed

theorem locator_returns_first_match_witness:
  "on_get remote_provisioned [] (list_request ''zone1'' (make_headers ''tok''))
     = Ok (Some [ruleset_managed, ruleset_abc, ruleset_fw]) \<and>
   \<not> matches cache_phase ruleset_managed \<and> matches cache_phase ruleset_abc \<and>
   find_or_create_cache_ruleset remote_provisioned ''zone1'' (make_headers ''tok'') [] =
     (Some ''abc'', [\<lparr>sent = list_request ''zone1'' (make_headers ''tok''), accepted = True\<rparr>]) \<and>
   \<not> matches firewall_phase ruleset_managed \<and> \<not> matches firewall_phase ruleset_abc \<and>
   matches firewall_phase ruleset_fw \<and>
   find_firewall_ruleset_id remote_provisioned ''zone1'' (make_headers ''tok'') [] =
     (Some ''fw1'', [\<lparr>sent = list_request ''zone1'' (make_headers ''tok''), accepted = True\<rparr>])"
proof -
  let ?q = "list_request ''zone1'' (make_headers ''tok'')"
  have l: "on_get remote_provisioned [] ?q = Ok (Some [ruleset_managed, ruleset_abc, ruleset_fw])"
    by (rule remote_provisioned_listing)
  have s1: "result_list (Some [ruleset_managed, ruleset_abc, ruleset_fw])
              = [ruleset_managed] @ ruleset_abc # [ruleset_fw]"
    by (simp add: result_list_def)
  have s2: "result_list (Some [ruleset_managed, ruleset_abc, ruleset_fw])
              = [ruleset_managed, ruleset_abc] @ ruleset_fw # []"
    by (simp add: result_list_def)
  have m: "\<not> matches cache_phase ruleset_managed" "matches cache_phase ruleset_abc"
          "\<not> matches firewall_phase ruleset_managed" "\<not> matches firewall_phase ruleset_abc"
          "matches firewall_phase ruleset_fw"
    by (simp_all add: matches_def ruleset_managed_def ruleset_abc_def ruleset_fw_def
          cache_phase_def firewall_phase_def)
  from locator_returns_first_match [OF l s1] locator_returns_first_match [OF l s2] l m
  show ?thesis by (simp add: ruleset_abc_def ruleset_fw_def)
qed

text \<open>
  C5. When the listing request of a container-based script fails, with an HTTP error
  status or a transport error, the locator returns \<open>None\<close>, the listing is the only
  request of the run, so no mutation request is sent, and the process exits with status 1.
\<close>

theorem lookup_failure_aborts:
  assumes cred: "credentials env tok z"
      and failed: "\<not> is_Ok (on_get rem [] (list_request z (make_headers tok)))"
  shows "fst (find_or_create_cache_ruleset rem z (make_headers tok) []) = None \<and>
         mutations z (trace (cache_main_with rules env rem)) = [] \<and>
         map sent (trace (cache_main_with rules env rem)) = [list_request z (make_headers tok)] \<and>
         exit_code (cache_main_with rules env rem) = 1 \<and>
         fst (find_firewall_ruleset_id rem z (make_headers tok) []) = None \<and>
         mutations z (trace (firewall_main_with rules env rem)) = [] \<and>
         map sent (trace (firewall_main_with rules env rem)) = [list_request z (make_headers tok)] \<and>
         exit_code (firewall_main_with rules env rem) = 1"
proof -
  have c: "find_or_create_cache_ruleset rem z (make_headers tok) [] =
             (None, [\<lparr>sent = list_request z (make_headers tok), accepted = False\<rparr>])"
    using cache_locator_lookup_failed [OF failed] by simp
  have f: "find_firewall_ruleset_id rem z (make_headers tok) [] =
             (None, [\<lparr>sent = list_request z (make_headers tok), accepted = False\<rparr>])"
    using failed
    by (cases "on_get rem [] (list_request z (make_headers tok))")
       (simp_all add: firewall_locator_eq)
  have cm: "cache_main_with rules env rem =
              aborted [\<lparr>sent = list_request z (make_headers tok), accepted = False\<rparr>]"
    using cred c by (simp add: cache_main_with_def credentials_def)
  have fm: "firewall_main_with rules env rem =
              aborted [\<lparr>sent = list_request z (make_headers tok), accepted = False\<rparr>]"
    using cred f by (simp add: firewall_main_with_def credentials_def)
  show ?thesis
    by (simp add: c f cm fm aborted_def mutations_def not_mutation_list)
qed

theorem lookup_failure_aborts_witness:
  "credentials env_ok ''tok'' ''zone1'' \<and>
   on_get remote_500 [] (list_request ''zone1'' (make_headers ''tok'')) = HTTPError 500 \<and>
   fst (find_or_create_cache_ruleset remote_500 ''zone1'' (make_headers ''tok'') []) = None \<and>
   mutations ''zone1'' (trace (cache_main env_ok remote_500)) = [] \<and>
   exit_code (cache_main env_ok remote_500) = 1 \<and>
   fst (find_firewall_ruleset_id remote_500 ''zone1'' (make_headers ''tok'') []) = None \<and>
   mutations ''zone1'' (trace (firewall_main env_ok remote_500)) = [] \<and>
   exit_code (firewall_main env_ok remote_500) = 1"
proof -
  have l: "on_get remote_500 [] (list_request ''zone1'' (make_headers ''tok'')) = HTTPError 500"
    by (simp add: remote_500_def demo_remote_def)
  then have f: "\<not> is_Ok (on_get remote_500 [] (list_request ''zone1'' (make_headers ''tok'')))"
    by simp
  from lookup_failure_aborts [OF credentials_env_ok f, of cache_rules_to_add]
       lookup_failure_aborts [OF credentials_env_ok f, of firewall_rules_to_add]
  show ?thesis using credentials_env_ok l
    by (simp add: cache_main_def firewall_main_def)
qed

text \<open>
  C10. The firewall locator sends one \<open>GET\<close> and nothing else, whatever the remote system
  answers. When the listing succeeds and holds no ruleset of kind \<open>zone\<close> and phase
  \<open>http_request_firewall_custom\<close>, it returns \<open>None\<close> and the run exits with status 1
  having sent the listing request only.
\<close>

theorem firewall_locator_read_only:
  "snd (find_firewall_ruleset_id rem z h tr) =
     tr @ [\<lparr>sent = list_request z h, accepted = is_Ok (on_get rem tr (list_request z h))\<rparr>] \<and>
   req_verb (list_request z h) = GET \<and>
   (credentials env tok zone \<and>
    on_get rem [] (list_request zone (make_headers tok)) = Ok body \<and>
    (\<forall>r \<in> set (result_list body). \<not> matches firewall_phase r) \<longrightarrow>
      fst (find_firewall_ruleset_id rem zone (make_headers tok) []) = None \<and>
      exit_code (firewall_main_with rules env rem) = 1 \<and>
      map sent (trace (firewall_main_with rules env rem)) = [list_request zone (make_headers tok)])"
proof (intro conjI impI)
  show "snd (find_firewall_ruleset_id rem z h tr) =
     tr @ [\<lparr>sent = list_request z h, accepted = is_Ok (on_get rem tr (list_request z h))\<rparr>]"
    by (simp add: firewall_locator_eq)
  show "req_verb (list_request z h) = GET"
    by (simp add: list_request_def)
next
  assume a: "credentials env tok zone \<and>
    on_get rem [] (list_request zone (make_headers tok)) = Ok body \<and>
    (\<forall>r \<in> set (result_list body). \<not> matches firewall_phase r)"
  then have scan: "scan_rulesets firewall_phase (result_list body) = None"
    by (simp add: scan_rulesets_none)
  have loc: "find_firewall_ruleset_id rem zone (make_headers tok) [] =
               (None, [\<lparr>sent = list_request zone (make_headers tok), accepted = True\<rparr>])"
    using a scan by (simp add: firewall_locator_eq)
  have run: "firewall_main_with rules env rem =
               aborted [\<lparr>sent = list_request zone (make_headers tok), accepted = True\<rparr>]"
    using a loc by (simp add: firewall_main_with_def credentials_def)
  show "fst (find_firewall_ruleset_id rem zone (make_headers tok) []) = None"
    by (simp add: loc)
  show "exit_code (firewall_main_with rules env rem) = 1"
    by (simp add: run aborted_def)
  show "map sent (trace (firewall_main_with rules env rem)) = [list_request zone (make_headers tok)]"
    by (simp add: run aborted_def)
qed

theorem firewall_locator_read_only_witness:
  "credentials env_ok ''tok'' ''zone1'' \<and>
   on_get remote_empty_zone [] (list_request ''zone1'' (make_headers ''tok'')) = Ok (Some []) \<and>
   result_list (Some []) = ([] :: ruleset list) \<and>
   snd (find_firewall_ruleset_id remote_empty_zone ''zone1'' (make_headers ''tok'') []) =
     [\<lparr>sent = list_request ''zone1'' (make_headers ''tok''), accepted = True\<rparr>] \<and>
   fst (find_firewall_ruleset_id remote_empty_zone ''zone1'' (make_headers ''tok'') []) = None \<and>
   exit_code (firewall_main env_ok remote_empty_zone) = 1 \<and>
   map sent (trace (firewall_main env_ok remote_empty_zone)) =
     [list_request ''zone1'' (make_headers ''tok'')]"
proof -
  have r: "result_list (Some []) = ([] :: ruleset list)"
    by (simp add: result_list_def)
  from firewall_locator_read_only
         [of remote_empty_zone "''zone1''" "make_headers ''tok''" "[]" env_ok "''tok''" "''zone1''"
             "Some []" firewall_rules_to_add]
  show ?thesis
    using credentials_env_ok r
    by (simp add: remote_empty_zone_listing firewall_main_def)
qed

text \<open>
  C1, as stated for every container-based script, fails on the firewall script: on a zone
  that lists no ruleset, its locator sends no creation request at all.
\<close>

theorem firewall_locator_creation_counterexample:
  "credentials env_ok ''tok'' ''zone1'' \<and>
   on_get remote_empty_zone [] (list_request ''zone1'' (make_headers ''tok'')) = Ok (Some []) \<and>
   result_list (Some []) = ([] :: ruleset list) \<and>
   creations ''zone1'' (snd (find_firewall_ruleset_id remote_empty_zone ''zone1'' (make_headers ''tok'') [])) = [] \<and>
   creations ''zone1'' (trace (firewall_main env_ok remote_empty_zone)) = []"
  by (simp add: credentials_env_ok remote_empty_zone_listing result_list_def
        firewall_locator_eq creations_def is_creation_def list_request_def
        firewall_main_def firewall_main_with_def env_ok_def aborted_def)

text \<open>
  C1, amended to the cache script. When the listing succeeds and holds no ruleset of kind
  \<open>zone\<close> and phase \<open>http_request_cache_settings\<close>, the cache locator sends the listing
  request and then exactly one creation request, a \<open>POST\<close> to the ruleset collection of
  the zone with the fixed name and description, kind \<open>zone\<close> and the cache phase. If the
  creation response carries a non-empty identifier, the locator returns it. In every other
  case (no identifier or an empty one, an error status, a transport error, a body that is
  not JSON) the locator returns \<open>None\<close>, the run consists of these two requests, so no
  mutation request is sent, and the process exits with status 1.
\<close>

theorem cache_locator_creates_once:
  assumes cred: "credentials env tok z"
      and listed: "on_get rem [] (list_request z (make_headers tok)) = Ok body"
      and nomatch: "\<forall>r \<in> set (case body of None \<Rightarrow> [] | Some l \<Rightarrow> l).
                      \<not> (rs_kind r = Some ''zone'' \<and> rs_phase r = Some ''http_request_cache_settings'')"
      and answer: "on_post rem [\<lparr>sent = list_request z (make_headers tok), accepted = True\<rparr>]
                     (create_request z (make_headers tok)) = cr"
  shows "list_request z (make_headers tok) =
           \<lparr>req_verb = GET,
            req_url = ''https://api.cloudflare.com/client/v4/zones/'' @ z @ ''/rulesets'',
            req_headers = [(''Authorization'', ''Bearer '' @ tok),
                           (''Content-Type'', ''application/json'')],
            req_json = None\<rparr> \<and>
         create_request z (make_headers tok) =
           \<lparr>req_verb = POST,
            req_url = ''https://api.cloudflare.com/client/v4/zones/'' @ z @ ''/rulesets'',
            req_headers = [(''Authorization'', ''Bearer '' @ tok),
                           (''Content-Type'', ''application/json'')],
            req_json = Some (JObj
              [(''name'', JStr ''Default Cache Settings Ruleset''),
               (''description'', JStr ''Default ruleset for custom cache settings, created via API''),
               (''kind'', JStr ''zone''),
               (''phase'', JStr ''http_request_cache_settings'')])\<rparr> \<and>
         map sent (snd (find_or_create_cache_ruleset rem z (make_headers tok) [])) =
           [list_request z (make_headers tok), create_request z (make_headers tok)] \<and>
         length (creations z (snd (find_or_create_cache_ruleset rem z (make_headers tok) []))) = 1 \<and>
         (\<forall>n rid. cr = Ok (Some n) \<and> rs_id n = Some rid \<and> rid \<noteq> [] \<longrightarrow>
            fst (find_or_create_cache_ruleset rem z (make_headers tok) []) = Some rid) \<and>
         (\<not> (\<exists>n rid. cr = Ok (Some n) \<and> rs_id n = Some rid \<and> rid \<noteq> []) \<longrightarrow>
            fst (find_or_create_cache_ruleset rem z (make_headers tok) []) = None \<and>
            map sent (trace (cache_main_with rules env rem)) =
              [list_request z (make_headers tok), create_request z (make_headers tok)] \<and>
            mutations z (trace (cache_main_with rules env rem)) = [] \<and>
            exit_code (cache_main_with rules env rem) = 1)"
proof -
  let ?h = "make_headers tok"
  let ?loc = "find_or_create_cache_ruleset rem z ?h []"
  let ?supplied = "\<exists>n rid. cr = Ok (Some n) \<and> rs_id n = Some rid \<and> rid \<noteq> []"
  have "\<forall>r \<in> set (result_list body). \<not> matches cache_phase r"
    using nomatch by (simp add: result_list_def matches_def cache_phase_def)
  then have scan: "scan_rulesets cache_phase (result_list body) = None"
    by (rule scan_rulesets_none)
  have answer': "on_post rem ([] @ [\<lparr>sent = list_request z ?h, accepted = True\<rparr>])
                   (create_request z ?h) = cr"
    using answer by simp
  have loc: "?loc =
     ((case cr of Ok created \<Rightarrow> if truthy (result_id created) then result_id created else None
               | NotJSON \<Rightarrow> None | HTTPError c \<Rightarrow> None | RequestException \<Rightarrow> None),
      [\<lparr>sent = list_request z ?h, accepted = True\<rparr>,
       \<lparr>sent = create_request z ?h, accepted = is_Ok cr\<rparr>])"
    using cache_locator_created [OF listed scan answer'] by simp
  have lq: "list_request z ?h =
           \<lparr>req_verb = GET,
            req_url = ''https://api.cloudflare.com/client/v4/zones/'' @ z @ ''/rulesets'',
            req_headers = [(''Authorization'', ''Bearer '' @ tok),
                           (''Content-Type'', ''application/json'')],
            req_json = None\<rparr>"
    by (simp add: list_request_def rulesets_url_def api_base_def make_headers_def)
  have cq: "create_request z ?h =
           \<lparr>req_verb = POST,
            req_url = ''https://api.cloudflare.com/client/v4/zones/'' @ z @ ''/rulesets'',
            req_headers = [(''Authorization'', ''Bearer '' @ tok),
                           (''Content-Type'', ''application/json'')],
            req_json = Some (JObj
              [(''name'', JStr ''Default Cache Settings Ruleset''),
               (''description'', JStr ''Default ruleset for custom cache settings, created via API''),
               (''kind'', JStr ''zone''),
               (''phase'', JStr ''http_request_cache_settings'')])\<rparr>"
    by (simp add: create_request_def rulesets_url_def api_base_def make_headers_def
          cache_create_payload_def cache_phase_def)
  have sends: "map sent (snd ?loc) = [list_request z ?h, create_request z ?h]"
    by (simp add: loc)
  have once: "length (creations z (snd ?loc)) = 1"
    by (simp add: loc creations_def is_creation_def list_request_def create_request_def)
  have supplied: "fst ?loc = Some rid"
    if "cr = Ok (Some n) \<and> rs_id n = Some rid \<and> rid \<noteq> []" for n rid
    using that by (simp add: loc result_id_def)
  have missing: "fst ?loc = None \<and>
                 map sent (trace (cache_main_with rules env rem)) =
                   [list_request z ?h, create_request z ?h] \<and>
                 mutations z (trace (cache_main_with rules env rem)) = [] \<and>
                 exit_code (cache_main_with rules env rem) = 1"
    if m: "\<not> ?supplied"
  proof -
    have none: "fst ?loc = None"
    proof (cases cr)
      case (Ok created)
      with m have "\<not> truthy (result_id created)"
        by (cases created; cases "result_id created") (auto simp add: result_id_def)
      then show ?thesis by (simp add: loc Ok)
    qed (simp_all add: loc)
    then obtain tr2 where l: "?loc = (None, tr2)" by (cases ?loc) simp
    have "cache_main_with rules env rem = aborted tr2"
      using cred l by (simp add: cache_main_with_def credentials_def Let_def)
    moreover have "tr2 = [\<lparr>sent = list_request z ?h, accepted = True\<rparr>,
                          \<lparr>sent = create_request z ?h, accepted = is_Ok cr\<rparr>]"
      using l loc by simp
    ultimately show ?thesis
      using none
      by (simp add: aborted_def mutations_def not_mutation_list not_mutation_create)
  qed
  from lq cq sends once supplied missing show ?thesis by blast
qed

theorem cache_locator_creates_once_witness:
  "credentials env_ok ''tok'' ''zone1'' \<and>
   on_get remote_empty_zone [] (list_request ''zone1'' (make_headers ''tok'')) = Ok (Some []) \<and>
   on_post remote_empty_zone [\<lparr>sent = list_request ''zone1'' (make_headers ''tok''), accepted = True\<rparr>]
     (create_request ''zone1'' (make_headers ''tok'')) = Ok (Some ruleset_abc) \<and>
   rs_id ruleset_abc = Some ''abc'' \<and>
   map sent (snd (find_or_create_cache_ruleset remote_empty_zone ''zone1'' (make_headers ''tok'') [])) =
     [list_request ''zone1'' (make_headers ''tok''), create_request ''zone1'' (make_headers ''tok'')] \<and>
   fst (find_or_create_cache_ruleset remote_empty_zone ''zone1'' (make_headers ''tok'') []) = Some ''abc'' \<and>
   on_post remote_no_id [\<lparr>sent = list_request ''zone1'' (make_headers ''tok''), accepted = True\<rparr>]
     (create_request ''zone1'' (make_headers ''tok'')) = Ok (Some ruleset_no_id) \<and>
   rs_id ruleset_no_id = None \<and>
   fst (find_or_create_cache_ruleset remote_no_id ''zone1'' (make_headers ''tok'') []) = None \<and>
   mutations ''zone1'' (trace (cache_main env_ok remote_no_id)) = [] \<and>
   exit_code (cache_main env_ok remote_no_id) = 1 \<and>
   on_post remote_creation_refused [\<lparr>sent = list_request ''zone1'' (make_headers ''tok''), accepted = True\<rparr>]
     (create_request ''zone1'' (make_headers ''tok'')) = HTTPError 403 \<and>
   fst (find_or_create_cache_ruleset remote_creation_refused ''zone1'' (make_headers ''tok'') []) = None \<and>
   map sent (trace (cache_main env_ok remote_creation_refused)) =
     [list_request ''zone1'' (make_headers ''tok''), create_request ''zone1'' (make_headers ''tok'')] \<and>
   exit_code (cache_main env_ok remote_creation_refused) = 1"
proof -
  let ?h = "make_headers ''tok''"
  have e: "\<forall>r \<in> set (case Some [] of None \<Rightarrow> [] | Some l \<Rightarrow> l).
             \<not> (rs_kind r = Some ''zone'' \<and> rs_phase r = Some ''http_request_cache_settings'')"
    by simp
  have i1: "rs_id ruleset_abc = Some ''abc''" by (simp add: ruleset_abc_def)
  have i2: "rs_id ruleset_no_id = None" by (simp add: ruleset_no_id_def)
  note t1 = cache_locator_creates_once
         [OF credentials_env_ok remote_empty_zone_listing e remote_empty_zone_creation,
          of cache_rules_to_add]
  note t2 = cache_locator_creates_once
         [OF credentials_env_ok remote_no_id_answers(1) e remote_no_id_answers(2),
          of cache_rules_to_add]
  note t3 = cache_locator_creates_once
         [OF credentials_env_ok remote_creation_refused_answers(1) e
             remote_creation_refused_answers(2), of cache_rules_to_add]
  have a1: "map sent (snd (find_or_create_cache_ruleset remote_empty_zone ''zone1'' ?h [])) =
              [list_request ''zone1'' ?h, create_request ''zone1'' ?h]"
    using t1 by blast
  have a2: "fst (find_or_create_cache_ruleset remote_empty_zone ''zone1'' ?h []) = Some ''abc''"
    using t1 i1 by blast
  have n2: "\<not> (\<exists>n rid. Ok (Some ruleset_no_id) = Ok (Some n) \<and> rs_id n = Some rid \<and> rid \<noteq> [])"
    by (simp add: i2)
  have b: "fst (find_or_create_cache_ruleset remote_no_id ''zone1'' ?h []) = None"
          "mutations ''zone1'' (trace (cache_main_with cache_rules_to_add env_ok remote_no_id)) = []"
          "exit_code (cache_main_with cache_rules_to_add env_ok remote_no_id) = 1"
    using t2 n2 by blast+
  have n3: "\<not> (\<exists>n rid. (HTTPError 403 :: ruleset option response) = Ok (Some n) \<and>
                         rs_id n = Some rid \<and> rid \<noteq> [])"
    by simp
  have c: "fst (find_or_create_cache_ruleset remote_creation_refused ''zone1'' ?h []) = None"
          "map sent (trace (cache_main_with cache_rules_to_add env_ok remote_creation_refused)) =
             [list_request ''zone1'' ?h, create_request ''zone1'' ?h]"
          "exit_code (cache_main_with cache_rules_to_add env_ok remote_creation_refused) = 1"
    using t3 n3 by blast+
  show ?thesis
    using credentials_env_ok i1 i2 a1 a2 b c
    by (simp add: remote_empty_zone_listing remote_empty_zone_creation remote_no_id_answers
          remote_creation_refused_answers cache_main_def)
qed

subsection \<open>The batches\<close>



text \<open>
  C8. In every run that reaches its batch, whatever the remote system answers, the requests
  sent after the locator's are exactly one request per mutation, each carrying that
  mutation alone, in the order of the mutation list.
\<close>

theorem requests_follow_batch_order:
  assumes cred: "credentials env tok z"
  shows "(find_or_create_cache_ruleset rem z (make_headers tok) [] = (Some cid, ctr) \<and> cid \<noteq> [] \<longrightarrow>
            map sent (trace (cache_main_with rules env rem)) =
              map sent ctr @ map (add_rule_request z cid (make_headers tok)) rules) \<and>
         (find_firewall_ruleset_id rem z (make_headers tok) [] = (Some fid, ftr) \<and> fid \<noteq> [] \<longrightarrow>
            map sent (trace (firewall_main_with rules env rem)) =
              map sent ftr @ map (add_rule_request z fid (make_headers tok)) rules) \<and>
         map sent (trace (speed_main_with settings env rem)) =
           map (setting_request z (make_headers tok)) settings \<and>
         map sent (trace (dns_sec_main_with settings env rem)) =
           dnssec_request z (make_headers tok) # map (setting_request z (make_headers tok)) settings \<and>
         map sent (trace (sec_main_with settings env rem)) =
           page_shield_request z (make_headers tok) # bot_fight_request z (make_headers tok)
             # map (setting_request z (make_headers tok)) settings \<and>
         map sent (trace (rate_limit_main env rem)) = [rate_limit_request z (make_headers tok)]"
proof (intro conjI impI)
  assume "find_or_create_cache_ruleset rem z (make_headers tok) [] = (Some cid, ctr) \<and> cid \<noteq> []"
  then show "map sent (trace (cache_main_with rules env rem)) =
              map sent ctr @ map (add_rule_request z cid (make_headers tok)) rules"
    using cache_main_sends [OF cred] by blast
next
  assume "find_firewall_ruleset_id rem z (make_headers tok) [] = (Some fid, ftr) \<and> fid \<noteq> []"
  then show "map sent (trace (firewall_main_with rules env rem)) =
              map sent ftr @ map (add_rule_request z fid (make_headers tok)) rules"
    using firewall_main_sends [OF cred] by blast
next
  show "map sent (trace (speed_main_with settings env rem)) =
           map (setting_request z (make_headers tok)) settings"
    by (rule speed_main_sends [OF cred])
  show "map sent (trace (dns_sec_main_with settings env rem)) =
           dnssec_request z (make_headers tok) # map (setting_request z (make_headers tok)) settings"
    by (rule dns_sec_main_sends [OF cred])
  show "map sent (trace (sec_main_with settings env rem)) =
           page_shield_request z (make_headers tok) # bot_fight_request z (make_headers tok)
             # map (setting_request z (make_headers tok)) settings"
    by (rule sec_main_sends [OF cred])
  show "map sent (trace (rate_limit_main env rem)) = [rate_limit_request z (make_headers tok)]"
    by (simp add: rate_limit_main_eq [OF cred])
qed

theorem requests_follow_batch_order_witness:
  "credentials env_ok ''tok'' ''zone1'' \<and>
   find_or_create_cache_ruleset remote_second_rejected ''zone1'' (make_headers ''tok'') [] =
     (Some ''abc'', [\<lparr>sent = list_request ''zone1'' (make_headers ''tok''), accepted = True\<rparr>]) \<and>
   map sent (trace (cache_main env_ok remote_second_rejected)) =
     [list_request ''zone1'' (make_headers ''tok''),
      add_rule_request ''zone1'' ''abc'' (make_headers ''tok'') bypass_admin_rule,
      add_rule_request ''zone1'' ''abc'' (make_headers ''tok'') bypass_login_rule] \<and>
   find_firewall_ruleset_id remote_second_rejected ''zone1'' (make_headers ''tok'') [] =
     (Some ''fw1'', [\<lparr>sent = list_request ''zone1'' (make_headers ''tok''), accepted = True\<rparr>]) \<and>
   map sent (trace (firewall_main env_ok remote_second_rejected)) =
     [list_request ''zone1'' (make_headers ''tok''),
      add_rule_request ''zone1'' ''fw1'' (make_headers ''tok'') geo_block_rule,
      add_rule_request ''zone1'' ''fw1'' (make_headers ''tok'') scanner_block_rule] \<and>
   map sent (trace (sec_main env_ok remote_second_rejected)) =
     [page_shield_request ''zone1'' (make_headers ''tok''),
      bot_fight_request ''zone1'' (make_headers ''tok''),
      setting_request ''zone1'' (make_headers ''tok'')
        \<lparr>api_name = ''hcaptcha_pass'', friendly_name = ''AI Labyrinth (Turnstile)'',
          payload = on_value\<rparr>]"
proof -
  let ?h = "make_headers ''tok''"
  have c: "find_or_create_cache_ruleset remote_second_rejected ''zone1'' ?h [] =
     (Some ''abc'', [\<lparr>sent = list_request ''zone1'' ?h, accepted = True\<rparr>])"
    unfolding remote_second_rejected_def by (rule provisioned_cache_locator)
  have f: "find_firewall_ruleset_id remote_second_rejected ''zone1'' ?h [] =
     (Some ''fw1'', [\<lparr>sent = list_request ''zone1'' ?h, accepted = True\<rparr>])"
    unfolding remote_second_rejected_def by (rule provisioned_firewall_locator)
  from requests_follow_batch_order
         [OF credentials_env_ok,
          of remote_second_rejected "''abc''" _ cache_rules_to_add "''fw1''" _ standard_settings_to_apply]
       requests_follow_batch_order
         [OF credentials_env_ok,
          of remote_second_rejected "''abc''" _ firewall_rules_to_add "''fw1''" _ standard_settings_to_apply]
  show ?thesis
    using credentials_env_ok c f
    by (simp add: cache_main_def firewall_main_def sec_main_def cache_rules_to_add_def
          firewall_rules_to_add_def standard_settings_to_apply_def)
qed

end
